theory Spec2Isabelle
  imports Complex_Main "HOL-Library.Sublist"
begin

section \<open>Collaborators and their observable calls\<close>

text \<open>
  Both session managers drive host objects (media streams, audio contexts and nodes,
  timers, the signaling peer and its calls, the streaming session). A host object is
  a handle (a natural number); every call a manager makes on one is recorded, in
  program order, as an \<open>effect\<close>. A manager operation is a function from the
  manager's fields to the new fields and the effects it performed.
\<close>

datatype call_event = Stream | Close | Error

datatype peer_event = PeerOpen | PeerIncoming | PeerError

text \<open>
  A caller hands each operation an object of callbacks; the handle of that object
  identifies whose callback runs. \<open>Invoke\<close> records the invocation of one.
\<close>

datatype callback =
    OnIncomingCall nat string
  | OnStream nat nat
  | OnClose nat
  | OnConnect
  | OnDisconnect
  | OnError

datatype effect =
    GetUserMedia
  | StopTracks nat
  | NewAudioContext nat
  | ContextClose nat
  | NodeConnect nat nat
  | NodeConnectDestination nat
  | NodeDisconnect nat
  | SourceStart nat rat
  | SourceStop nat
  | SetInterval nat
  | ClearInterval nat
  | LiveConnect nat
  | NewPeer string nat
  | PeerOn nat peer_event nat
  | PeerDestroy nat
  | PeerCall nat string "nat option"
  | CallAnswer nat "nat option"
  | CallClose nat
  | CallOff nat call_event
  | CallOn nat call_event nat
  | Invoke callback

text \<open>
  What an operation can throw: the \<open>Error\<close> that \<open>PeerService.startLocalStream\<close>
  builds for a refused microphone, an error raised by a collaborator (with its
  \<open>message\<close>, if it has one), and the \<open>TypeError\<close> of a member access on
  \<open>undefined\<close> or \<open>null\<close>.
\<close>

datatype js_error = MicrophoneDenied | Thrown "string option" | TypeError

section \<open>LiveService (src/services/peerService.ts, second document)\<close>

text \<open>
  The fields of the class. \<open>audioSources\<close> is a JavaScript \<open>Set\<close>: it iterates in
  insertion order and holds no duplicates, so it is a list that \<open>setAdd\<close> extends only
  by absent members. \<open>nextStartTime\<close> and the clock of the output context are numbers
  of seconds; a buffer's duration is its frame count over the sample rate, so times are
  rationals. The two fields that share a name with a field of PeerService carry the
  prefix \<open>live\<close>.
\<close>

record live_state =
  inputAudioContext :: "nat option"
  outputAudioContext :: "nat option"
  inputSource :: "nat option"
  processor :: "nat option"
  outputNode :: "nat option"
  audioSources :: "nat list"
  nextStartTime :: rat
  stream :: "nat option"
  isConnected :: bool
  sessionPromise :: "nat option"
  liveInputAnalyser :: "nat option"
  outputAnalyser :: "nat option"
  liveVolumeInterval :: "nat option"

definition setAdd :: "nat \<Rightarrow> nat list \<Rightarrow> nat list" where
  "setAdd x xs = (if x \<in> set xs then xs else xs @ [x])"

text \<open>
  \<open>if (x)\<close> on a \<open>number | null\<close> field: \<open>null\<close> and \<open>0\<close> are both falsy. Timer
  handles are the only numbers tested this way.
\<close>

definition truthy :: "nat option \<Rightarrow> bool" where
  "truthy h = (case h of None \<Rightarrow> False | Some n \<Rightarrow> n \<noteq> 0)"

text \<open>
  An inbound message, reduced to the two places the handler reads:
  \<open>serverContent?.modelTurn?.parts?.[0]?.inlineData?.data\<close> (absent, or a base64 string)
  and \<open>serverContent?.interrupted\<close>.
\<close>

record server_message =
  inlineData :: "string option"
  interrupted :: bool

text \<open>
  Lines 291-308. \<open>if (base64Audio)\<close> is false for an absent payload and for the empty
  string. \<open>decodeBase64\<close> and \<open>pcmToAudioBuffer\<close> live in \<open>utils/audioUtils\<close>, which
  is not among the sources: the duration of the buffer they build from a payload is
  the parameter \<open>duration\<close>. \<open>currentTime\<close> is the reading of the output context's
  clock, \<open>source\<close> the node \<open>createBufferSource\<close> returns, \<open>out\<close> the output node.
\<close>

definition scheduleChunk ::
  "(string \<Rightarrow> rat) \<Rightarrow> rat \<Rightarrow> nat \<Rightarrow> nat \<Rightarrow> server_message \<Rightarrow> live_state
    \<Rightarrow> live_state \<times> effect list" where
  "scheduleChunk duration currentTime source out message s =
     (case inlineData message of
        None \<Rightarrow> (s, [])
      | Some base64Audio \<Rightarrow>
          if base64Audio = [] then (s, [])
          else
            let start = max (nextStartTime s) currentTime
            in (s\<lparr>nextStartTime := start + duration base64Audio,
                  audioSources := setAdd source (audioSources s)\<rparr>,
                [NodeConnect source out, SourceStart source start]))"

text \<open>
  Lines 311-318. Every tracked source is stopped (a throwing \<open>stop\<close> is caught and
  ignored), the set is cleared and the cursor returns to zero.
\<close>

definition flushOnInterrupt :: "server_message \<Rightarrow> live_state \<Rightarrow> live_state \<times> effect list" where
  "flushOnInterrupt message s =
     (if interrupted message
      then (s\<lparr>audioSources := [], nextStartTime := 0\<rparr>, map SourceStop (audioSources s))
      else (s, []))"

text \<open>Lines 286-319: the guard, then the audio block, then the interruption block.\<close>

definition handleServerMessage ::
  "(string \<Rightarrow> rat) \<Rightarrow> rat \<Rightarrow> nat \<Rightarrow> server_message \<Rightarrow> live_state
    \<Rightarrow> live_state \<times> effect list" where
  "handleServerMessage duration currentTime source message s =
     (case (outputAudioContext s, outputNode s) of
        (Some ctx, Some out) \<Rightarrow>
          (case scheduleChunk duration currentTime source out message s of
             (s1, e1) \<Rightarrow>
               (case flushOnInterrupt message s1 of
                  (s2, e2) \<Rightarrow> (s2, e1 @ e2)))
      | _ \<Rightarrow> (s, []))"

text \<open>The \<open>ended\<close> listener attached to each source (lines 301-303).\<close>

definition onSourceEnded :: "nat \<Rightarrow> live_state \<Rightarrow> live_state" where
  "onSourceEnded source s = s\<lparr>audioSources := removeAll source (audioSources s)\<rparr>"


fun startTimes :: "effect list \<Rightarrow> rat list" where
  "startTimes [] = []"
| "startTimes (SourceStart n t # es) = t # startTimes es"
| "startTimes (e # es) = startTimes es"

text \<open>
  The handler gets past its guard, that is, it processes the message, when the output
  context and the output node both exist.
\<close>

definition processes :: "live_state \<Rightarrow> bool" where
  "processes s = (outputAudioContext s \<noteq> None \<and> outputNode s \<noteq> None)"

definition isAudioChunk :: "server_message \<Rightarrow> bool" where
  "isAudioChunk m = (case inlineData m of None \<Rightarrow> False | Some b \<Rightarrow> b \<noteq> [])"





text \<open>
  Teardown is written as guarded releases: \<open>if (this.x) { release(this.x); this.x = null }\<close>.
  \<open>released\<close> is the call such a guard makes on an object slot, \<open>clearTimer\<close> the
  guard on the timer slot, whose test is also false for the handle \<open>0\<close>.
\<close>

definition released :: "nat option \<Rightarrow> (nat \<Rightarrow> effect) \<Rightarrow> effect list" where
  "released slot release = (case slot of None \<Rightarrow> [] | Some h \<Rightarrow> [release h])"

definition clearTimer :: "nat option \<Rightarrow> nat option \<times> effect list" where
  "clearTimer slot = (if truthy slot then (None, released slot ClearInterval) else (slot, []))"

text \<open>Lines 344-381.\<close>

definition disconnect :: "live_state \<Rightarrow> live_state \<times> effect list" where
  "disconnect s =
     (s\<lparr>isConnected := False,
        stream := None,
        processor := None,
        inputSource := None,
        inputAudioContext := None,
        outputAudioContext := None,
        liveVolumeInterval := fst (clearTimer (liveVolumeInterval s))\<rparr>,
      released (stream s) StopTracks
      @ released (processor s) NodeDisconnect
      @ released (inputSource s) NodeDisconnect
      @ released (inputAudioContext s) ContextClose
      @ released (outputAudioContext s) ContextClose
      @ snd (clearTimer (liveVolumeInterval s)))"

text \<open>
  What the host hands back during \<open>connect\<close>: the two contexts, the analysers, the gain
  node, the microphone stream (\<open>None\<close> when \<open>getUserMedia\<close> rejects) and the session.
\<close>

record connect_env =
  newInputContext :: nat
  newOutputContext :: nat
  newInputAnalyser :: nat
  newOutputAnalyser :: nat
  newGain :: nat
  microphone :: "nat option"
  newSession :: nat

text \<open>
  Lines 193-262. The first statement is the guard on \<open>isConnected\<close>; a rejected
  microphone request lands in the \<open>catch\<close>, which reports the error and disconnects.
\<close>

definition connect :: "connect_env \<Rightarrow> live_state \<Rightarrow> live_state \<times> effect list" where
  "connect env s =
     (if isConnected s then (s, [])
      else
        let s1 = s\<lparr>inputAudioContext := Some (newInputContext env),
                   outputAudioContext := Some (newOutputContext env),
                   liveInputAnalyser := Some (newInputAnalyser env),
                   outputAnalyser := Some (newOutputAnalyser env),
                   outputNode := Some (newGain env)\<rparr>;
            e1 = [NewAudioContext (newInputContext env),
                  NewAudioContext (newOutputContext env),
                  NodeConnectDestination (newGain env),
                  NodeConnect (newGain env) (newOutputAnalyser env),
                  GetUserMedia]
        in case microphone env of
             None \<Rightarrow>
               (case disconnect s1 of (s2, e2) \<Rightarrow> (s2, e1 @ [Invoke OnError] @ e2))
           | Some m \<Rightarrow>
               (s1\<lparr>stream := Some m, sessionPromise := Some (newSession env)\<rparr>,
                e1 @ [LiveConnect (newSession env)]))"

text \<open>Lines 321-342; \<open>hasCallback\<close> is whether \<open>onVolumeChange\<close> was given.\<close>

definition liveStartVolumeMonitoring :: "bool \<Rightarrow> nat \<Rightarrow> live_state \<Rightarrow> live_state \<times> effect list" where
  "liveStartVolumeMonitoring hasCallback timer s =
     (if \<not> hasCallback then (s, [])
      else (s\<lparr>liveVolumeInterval := Some timer\<rparr>, [SetInterval timer]))"

text \<open>
  Lines 264-284. \<open>source\<close> and \<open>proc\<close> are the nodes \<open>createMediaStreamSource\<close> and
  \<open>createScriptProcessor\<close> return. \<open>this.inputAnalyser!\<close> is passed to \<open>connect\<close>
  unchecked; \<open>connect(null)\<close> is a \<open>TypeError\<close>.
\<close>

definition startAudioInputStreaming :: "nat \<Rightarrow> nat \<Rightarrow> live_state
    \<Rightarrow> (js_error + unit) \<times> live_state \<times> effect list" where
  "startAudioInputStreaming source proc s =
     (if inputAudioContext s = None \<or> stream s = None \<or> sessionPromise s = None
      then (Inr (), s, [])
      else
        case liveInputAnalyser s of
          None \<Rightarrow> (Inl TypeError, s\<lparr>inputSource := Some source\<rparr>, [])
        | Some analyser \<Rightarrow>
            (Inr (), s\<lparr>inputSource := Some source, processor := Some proc\<rparr>,
             [NodeConnect source analyser, NodeConnect source proc,
              NodeConnectDestination proc]))"

text \<open>The session's \<open>onopen\<close> callback (lines 219-225).\<close>

definition onSessionOpen :: "nat \<Rightarrow> nat \<Rightarrow> bool \<Rightarrow> nat \<Rightarrow> live_state
    \<Rightarrow> (js_error + unit) \<times> live_state \<times> effect list" where
  "onSessionOpen source proc hasCallback timer s =
     (case startAudioInputStreaming source proc (s\<lparr>isConnected := True\<rparr>) of
        (Inl e, s1, e1) \<Rightarrow> (Inl e, s1, e1)
      | (Inr _, s1, e1) \<Rightarrow>
          (case liveStartVolumeMonitoring hasCallback timer s1 of
             (s2, e2) \<Rightarrow> (Inr (), s2, e1 @ [Invoke OnConnect] @ e2)))"

text \<open>The session's \<open>onclose\<close> callback (lines 229-233).\<close>

definition onSessionClose :: "live_state \<Rightarrow> live_state \<times> effect list" where
  "onSessionClose s = (case disconnect s of (s1, e1) \<Rightarrow> (s1, e1 @ [Invoke OnDisconnect]))"

section \<open>PeerService (src/unnamed/part_000, second document)\<close>

record peer_state =
  peer :: "nat option"
  myStream :: "nat option"
  remoteStream :: "nat option"
  call :: "nat option"
  audioContext :: "nat option"
  inputAnalyser :: "nat option"
  remoteAnalyser :: "nat option"
  volumeInterval :: "nat option"

text \<open>How a call on a collaborator ends.\<close>

datatype outcome = Returns | Throws "string option"

text \<open>\<open>String.prototype.includes\<close>.\<close>

fun str_includes :: "string \<Rightarrow> string \<Rightarrow> bool" where
  "str_includes [] needle = (needle = [])"
| "str_includes (c # cs) needle = (prefix needle (c # cs) \<or> str_includes cs needle)"

text \<open>
  Lines 42-76. \<open>created\<close> is the object \<open>new Peer\<close> returns, or the error it throws;
  the \<open>catch\<close> logs and rethrows.
\<close>

definition init :: "nat + string option \<Rightarrow> string \<Rightarrow> nat \<Rightarrow> peer_state
    \<Rightarrow> (js_error + unit) \<times> peer_state \<times> effect list" where
  "init created myId callbacks s =
     (case created of
        Inr message \<Rightarrow> (Inl (Thrown message), s, released (peer s) PeerDestroy)
      | Inl p \<Rightarrow>
          (Inr (), s\<lparr>peer := Some p\<rparr>,
           released (peer s) PeerDestroy
           @ [NewPeer myId p, PeerOn p PeerOpen callbacks,
              PeerOn p PeerIncoming callbacks, PeerOn p PeerError callbacks]))"

text \<open>The handler \<open>init\<close> attaches for the peer's \<open>call\<close> event (lines 61-67).\<close>

definition onIncomingCall :: "nat \<Rightarrow> nat \<Rightarrow> string \<Rightarrow> peer_state \<Rightarrow> peer_state \<times> effect list" where
  "onIncomingCall callbacks incomingCall caller s =
     (s\<lparr>call := Some incomingCall\<rparr>, [Invoke (OnIncomingCall callbacks caller)])"

text \<open>
  Lines 78-88. \<open>mic\<close> is what \<open>getUserMedia\<close> yields if it is asked: a stream, or
  \<open>None\<close> for a rejection.
\<close>

definition startLocalStream :: "nat option \<Rightarrow> peer_state
    \<Rightarrow> (js_error + nat) \<times> peer_state \<times> effect list" where
  "startLocalStream mic s =
     (case myStream s of
        Some m \<Rightarrow> (Inr m, s, [])
      | None \<Rightarrow>
          (case mic of
             Some m \<Rightarrow> (Inr m, s\<lparr>myStream := Some m\<rparr>, [GetUserMedia])
           | None \<Rightarrow> (Inl MicrophoneDenied, s, [GetUserMedia])))"

text \<open>
  Lines 130-155. \<open>off\<close> with an event name alone removes every listener of that event;
  the three handlers close over \<open>this\<close> and the callbacks object.
\<close>

definition setupCallEvents :: "nat \<Rightarrow> nat \<Rightarrow> effect list" where
  "setupCallEvents c callbacks =
     [CallOff c Stream, CallOff c Close, CallOff c Error,
      CallOn c Stream callbacks, CallOn c Close callbacks, CallOn c Error callbacks]"

text \<open>
  Lines 90-103. \<open>placed\<close> is what \<open>peer.call\<close> returns (\<open>None\<close> for \<open>undefined\<close>).
  A member access on an absent peer or on an absent new call is a \<open>TypeError\<close>.
\<close>

definition makeCall :: "nat option \<Rightarrow> nat option \<Rightarrow> string \<Rightarrow> nat \<Rightarrow> peer_state
    \<Rightarrow> (js_error + unit) \<times> peer_state \<times> effect list" where
  "makeCall mic placed remoteId callbacks s =
     (case (if myStream s = None then startLocalStream mic s else (Inr 0, s, [])) of
        (Inl e, s1, e1) \<Rightarrow> (Inl e, s1, e1)
      | (Inr _, s1, e1) \<Rightarrow>
          let e2 = released (call s1) CallClose
          in case peer s1 of
               None \<Rightarrow> (Inl TypeError, s1, e1 @ e2)
             | Some p \<Rightarrow>
                 (case placed of
                    None \<Rightarrow>
                      (Inl TypeError, s1\<lparr>call := None\<rparr>,
                       e1 @ e2 @ [PeerCall p remoteId (myStream s1)])
                  | Some c \<Rightarrow>
                      (Inr (), s1\<lparr>call := Some c\<rparr>,
                       e1 @ e2 @ [PeerCall p remoteId (myStream s1)]
                       @ setupCallEvents c callbacks)))"

text \<open>
  Lines 105-128. \<open>answered\<close> is how \<open>call.answer\<close> ends. An error whose message
  contains \<open>stable\<close> is logged as a warning and execution goes on; any other is rethrown.
\<close>

definition isStable :: "string option \<Rightarrow> bool" where
  "isStable message =
     (case message of None \<Rightarrow> False | Some t \<Rightarrow> t \<noteq> [] \<and> str_includes t ''stable'')"

definition answerCall :: "nat option \<Rightarrow> outcome \<Rightarrow> nat \<Rightarrow> peer_state
    \<Rightarrow> (js_error + unit) \<times> peer_state \<times> effect list" where
  "answerCall mic answered callbacks s =
     (case call s of
        None \<Rightarrow> (Inr (), s, [])
      | Some c \<Rightarrow>
          (case (if myStream s = None then startLocalStream mic s else (Inr 0, s, [])) of
             (Inl e, s1, e1) \<Rightarrow> (Inl e, s1, e1)
           | (Inr _, s1, e1) \<Rightarrow>
               (case answered of
                  Returns \<Rightarrow>
                    (Inr (), s1, e1 @ [CallAnswer c (myStream s1)] @ setupCallEvents c callbacks)
                | Throws message \<Rightarrow>
                    if isStable message
                    then (Inr (), s1,
                          e1 @ [CallAnswer c (myStream s1)] @ setupCallEvents c callbacks)
                    else (Inl (Thrown message), s1, e1 @ [CallAnswer c (myStream s1)]))))"

text \<open>
  Lines 157-180. \<open>newContext\<close> is the new \<open>AudioContext\<close>, or \<open>None\<close> when building the
  graph throws, which the \<open>catch\<close> only logs.
\<close>

record analysis_env =
  newContext :: "nat option"
  inputTap :: nat
  remoteTap :: nat

definition setupAudioAnalysis :: "analysis_env \<Rightarrow> peer_state \<Rightarrow> peer_state \<times> effect list" where
  "setupAudioAnalysis env s =
     (if myStream s = None \<or> remoteStream s = None then (s, [])
      else
        case newContext env of
          None \<Rightarrow> (s, released (audioContext s) ContextClose)
        | Some ctx \<Rightarrow>
            (s\<lparr>audioContext := Some ctx,
               inputAnalyser := Some (inputTap env),
               remoteAnalyser := Some (remoteTap env)\<rparr>,
             released (audioContext s) ContextClose @ [NewAudioContext ctx]))"

text \<open>Lines 182-203.\<close>

definition startVolumeMonitoring :: "nat \<Rightarrow> peer_state \<Rightarrow> peer_state \<times> effect list" where
  "startVolumeMonitoring timer s =
     (s\<lparr>volumeInterval := Some timer\<rparr>,
      snd (clearTimer (volumeInterval s)) @ [SetInterval timer])"

text \<open>Lines 212-223.\<close>

definition cleanupCall :: "peer_state \<Rightarrow> peer_state \<times> effect list" where
  "cleanupCall s =
     (s\<lparr>call := None,
        remoteStream := None,
        volumeInterval := fst (clearTimer (volumeInterval s)),
        audioContext := None\<rparr>,
      snd (clearTimer (volumeInterval s)) @ released (audioContext s) ContextClose)"

text \<open>Lines 205-210.\<close>

definition endCall :: "peer_state \<Rightarrow> peer_state \<times> effect list" where
  "endCall s =
     (case cleanupCall s of (s1, e1) \<Rightarrow> (s1, released (call s) CallClose @ e1))"


subsection \<open>Delivery of call events\<close>

text \<open>
  The call object is an event emitter of the signaling library, which is not part of
  the repository: \<open>on\<close> appends a
  listener to the event's list, \<open>off\<close> empties the list, and an event runs the listeners
  attached at that moment in their order. \<open>listeners\<close> reads the list for one call and
  event off the effects performed so far; a listener is named by its callbacks object.
  Events reach the manager through \<open>deliver\<close>, as separate steps: an operation's own
  \<open>call.close()\<close> is recorded as an effect and runs no listener within the operation.
\<close>

fun attach :: "nat \<Rightarrow> call_event \<Rightarrow> nat list \<Rightarrow> effect \<Rightarrow> nat list" where
  "attach c ev ls (CallOff c' ev') = (if c' = c \<and> ev' = ev then [] else ls)"
| "attach c ev ls (CallOn c' ev' callbacks) = (if c' = c \<and> ev' = ev then ls @ [callbacks] else ls)"
| "attach c ev ls e = ls"

definition listeners :: "nat \<Rightarrow> call_event \<Rightarrow> effect list \<Rightarrow> nat list" where
  "listeners c ev es = foldl (attach c ev) [] es"

text \<open>
  The bodies of the three handlers of \<open>setupCallEvents\<close> (lines 139-154); \<open>arg\<close> is the
  remote stream of a \<open>stream\<close> event.
\<close>

fun callHandler :: "analysis_env \<Rightarrow> call_event \<Rightarrow> nat \<Rightarrow> nat \<Rightarrow> peer_state
    \<Rightarrow> peer_state \<times> effect list" where
  "callHandler env Stream arg callbacks s =
     (case setupAudioAnalysis env (s\<lparr>remoteStream := Some arg\<rparr>) of
        (s1, e1) \<Rightarrow> (s1, [Invoke (OnStream callbacks arg)] @ e1))"
| "callHandler env Close arg callbacks s =
     (case cleanupCall s of (s1, e1) \<Rightarrow> (s1, e1 @ [Invoke (OnClose callbacks)]))"
| "callHandler env Error arg callbacks s =
     (case cleanupCall s of (s1, e1) \<Rightarrow> (s1, e1 @ [Invoke (OnClose callbacks)]))"

fun deliver :: "analysis_env \<Rightarrow> call_event \<Rightarrow> nat \<Rightarrow> nat list \<Rightarrow> peer_state
    \<Rightarrow> peer_state \<times> effect list" where
  "deliver env ev arg [] s = (s, [])"
| "deliver env ev arg (callbacks # rest) s =
     (case callHandler env ev arg callbacks s of
        (s1, e1) \<Rightarrow>
          (case deliver env ev arg rest s1 of (s2, e2) \<Rightarrow> (s2, e1 @ e2)))"

section \<open>The other text of PeerService (src/services/peerService.ts, first document)\<close>

text \<open>
  The repository holds the class twice. The text in src/services/peerService.ts has the
  same fields; its operations that differ from the ones above carry the suffix
  \<open>_alt\<close>. Its \<open>cleanupCall\<close> and \<open>endCall\<close> (lines 131-149) are the ones above, word
  for word.
\<close>

text \<open>Lines 18-40: no test of an earlier peer.\<close>

definition init_alt :: "nat + string option \<Rightarrow> string \<Rightarrow> nat \<Rightarrow> peer_state
    \<Rightarrow> (js_error + unit) \<times> peer_state \<times> effect list" where
  "init_alt created myId callbacks s =
     (case created of
        Inr message \<Rightarrow> (Inl (Thrown message), s, [])
      | Inl p \<Rightarrow>
          (Inr (), s\<lparr>peer := Some p\<rparr>,
           [NewPeer myId p, PeerOn p PeerOpen callbacks,
            PeerOn p PeerIncoming callbacks, PeerOn p PeerError callbacks]))"

text \<open>Lines 42-45: the request is made on every call; a rejection propagates as it is.\<close>

definition startLocalStream_alt :: "nat + string option \<Rightarrow> peer_state
    \<Rightarrow> (js_error + nat) \<times> peer_state \<times> effect list" where
  "startLocalStream_alt mic s =
     (case mic of
        Inl m \<Rightarrow> (Inr m, s\<lparr>myStream := Some m\<rparr>, [GetUserMedia])
      | Inr message \<Rightarrow> (Inl (Thrown message), s, [GetUserMedia]))"

text \<open>Lines 68-87: the three listeners are attached, none is removed.\<close>

definition setupCallEvents_alt :: "nat \<Rightarrow> nat \<Rightarrow> effect list" where
  "setupCallEvents_alt c callbacks =
     [CallOn c Stream callbacks, CallOn c Close callbacks, CallOn c Error callbacks]"

text \<open>Lines 57-66: \<open>call.answer\<close> is not inside a \<open>try\<close>.\<close>

definition answerCall_alt :: "nat + string option \<Rightarrow> outcome \<Rightarrow> nat \<Rightarrow> peer_state
    \<Rightarrow> (js_error + unit) \<times> peer_state \<times> effect list" where
  "answerCall_alt mic answered callbacks s =
     (case call s of
        None \<Rightarrow> (Inr (), s, [])
      | Some c \<Rightarrow>
          (case (if myStream s = None then startLocalStream_alt mic s else (Inr 0, s, [])) of
             (Inl e, s1, e1) \<Rightarrow> (Inl e, s1, e1)
           | (Inr _, s1, e1) \<Rightarrow>
               (case answered of
                  Returns \<Rightarrow>
                    (Inr (), s1,
                     e1 @ [CallAnswer c (myStream s1)] @ setupCallEvents_alt c callbacks)
                | Throws message \<Rightarrow>
                    (Inl (Thrown message), s1, e1 @ [CallAnswer c (myStream s1)]))))"

text \<open>Lines 89-106: neither a \<open>try\<close> nor a close of an earlier context.\<close>

definition setupAudioAnalysis_alt :: "analysis_env \<Rightarrow> peer_state
    \<Rightarrow> (js_error + unit) \<times> peer_state \<times> effect list" where
  "setupAudioAnalysis_alt env s =
     (if myStream s = None \<or> remoteStream s = None then (Inr (), s, [])
      else
        case newContext env of
          None \<Rightarrow> (Inl (Thrown None), s, [])
        | Some ctx \<Rightarrow>
            (Inr (),
             s\<lparr>audioContext := Some ctx,
               inputAnalyser := Some (inputTap env),
               remoteAnalyser := Some (remoteTap env)\<rparr>,
             [NewAudioContext ctx]))"

text \<open>
  The handlers of lines 72-86. An error thrown inside a listener leaves the emitter's
  loop; the listeners after it do not run.
\<close>

fun callHandler_alt :: "analysis_env \<Rightarrow> call_event \<Rightarrow> nat \<Rightarrow> nat \<Rightarrow> peer_state
    \<Rightarrow> (js_error + unit) \<times> peer_state \<times> effect list" where
  "callHandler_alt env Stream arg callbacks s =
     (case setupAudioAnalysis_alt env (s\<lparr>remoteStream := Some arg\<rparr>) of
        (r, s1, e1) \<Rightarrow> (r, s1, [Invoke (OnStream callbacks arg)] @ e1))"
| "callHandler_alt env Close arg callbacks s =
     (case cleanupCall s of (s1, e1) \<Rightarrow> (Inr (), s1, e1 @ [Invoke (OnClose callbacks)]))"
| "callHandler_alt env Error arg callbacks s =
     (case cleanupCall s of (s1, e1) \<Rightarrow> (Inr (), s1, e1 @ [Invoke (OnClose callbacks)]))"

fun deliver_alt :: "analysis_env \<Rightarrow> call_event \<Rightarrow> nat \<Rightarrow> nat list \<Rightarrow> peer_state
    \<Rightarrow> (js_error + unit) \<times> peer_state \<times> effect list" where
  "deliver_alt env ev arg [] s = (Inr (), s, [])"
| "deliver_alt env ev arg (callbacks # rest) s =
     (case callHandler_alt env ev arg callbacks s of
        (Inl e, s1, e1) \<Rightarrow> (Inl e, s1, e1)
      | (Inr _, s1, e1) \<Rightarrow>
          (case deliver_alt env ev arg rest s1 of (r, s2, e2) \<Rightarrow> (r, s2, e1 @ e2)))"

section \<open>Concrete sessions\<close>

text \<open>
  A service as its constructor leaves it (the field initialisers, lines 173-187), the
  host objects of one \<open>connect\<close>, a decoder that gives a tenth of a second per payload
  character, and messages.
\<close>

definition newLiveService :: live_state where
  "newLiveService =
     \<lparr>inputAudioContext = None, outputAudioContext = None, inputSource = None,
      processor = None, outputNode = None, audioSources = [], nextStartTime = 0,
      stream = None, isConnected = False, sessionPromise = None,
      liveInputAnalyser = None, outputAnalyser = None, liveVolumeInterval = None\<rparr>"

definition demoEnv :: connect_env where
  "demoEnv =
     \<lparr>newInputContext = 1, newOutputContext = 2, newInputAnalyser = 3,
      newOutputAnalyser = 4, newGain = 5, microphone = Some 6, newSession = 7\<rparr>"


definition demoDuration :: "string \<Rightarrow> rat" where
  "demoDuration b = of_nat (length b) / 10"

definition chunk :: "string \<Rightarrow> server_message" where
  "chunk b = \<lparr>inlineData = Some b, interrupted = False\<rparr>"

definition interruption :: server_message where
  "interruption = \<lparr>inlineData = None, interrupted = True\<rparr>"

definition interruptedChunk :: "string \<Rightarrow> server_message" where
  "interruptedChunk b = \<lparr>inlineData = Some b, interrupted = True\<rparr>"

text \<open>
  The service after \<open>connect\<close>; after the session's \<open>onopen\<close> has wired input source 8
  and processor 9 and started metering timer 20; and after it has then scheduled half
  a second of audio on source 10.
\<close>

definition liveDemo :: live_state where
  "liveDemo = fst (connect demoEnv newLiveService)"

definition liveOpen :: live_state where
  "liveOpen = fst (snd (onSessionOpen 8 9 True 20 liveDemo))"

definition liveActive :: live_state where
  "liveActive = fst (handleServerMessage demoDuration 0 10 (chunk ''AAAAA'') liveOpen)"




text \<open>
  A call manager as constructed; one that is registered as peer 1, holds microphone
  stream 2 and has received call 4; and one in the middle of that call, with remote
  stream 3, analysis context 5 and metering timer 8.
\<close>

definition newPeerService :: peer_state where
  "newPeerService =
     \<lparr>peer = None, myStream = None, remoteStream = None, call = None,
      audioContext = None, inputAnalyser = None, remoteAnalyser = None,
      volumeInterval = None\<rparr>"

definition peerRinging :: peer_state where
  "peerRinging =
     \<lparr>peer = Some 1, myStream = Some 2, remoteStream = None, call = Some 4,
      audioContext = None, inputAnalyser = None, remoteAnalyser = None,
      volumeInterval = None\<rparr>"

definition peerInCall :: peer_state where
  "peerInCall =
     \<lparr>peer = Some 1, myStream = Some 2, remoteStream = Some 3, call = Some 4,
      audioContext = Some 5, inputAnalyser = Some 6, remoteAnalyser = Some 7,
      volumeInterval = Some 8\<rparr>"



text \<open>The host objects of one audio-analysis graph, and an error of the transport.\<close>

definition demoAnalysis :: analysis_env where
  "demoAnalysis = \<lparr>newContext = Some 5, inputTap = 6, remoteTap = 7\<rparr>"

definition stableError :: "string option" where
  "stableError = Some ''Called in wrong state: stable''"

section \<open>Playback scheduling and interruption\<close>

lemma liveDemo_fields:
  "liveDemo =
     \<lparr>inputAudioContext = Some 1, outputAudioContext = Some 2, inputSource = None,
      processor = None, outputNode = Some 5, audioSources = [], nextStartTime = 0,
      stream = Some 6, isConnected = False, sessionPromise = Some 7,
      liveInputAnalyser = Some 3, outputAnalyser = Some 4, liveVolumeInterval = None\<rparr>"
  by (simp add: liveDemo_def connect_def demoEnv_def newLiveService_def)

lemma liveOpen_fields:
  "liveOpen =
     \<lparr>inputAudioContext = Some 1, outputAudioContext = Some 2, inputSource = Some 8,
      processor = Some 9, outputNode = Some 5, audioSources = [], nextStartTime = 0,
      stream = Some 6, isConnected = True, sessionPromise = Some 7,
      liveInputAnalyser = Some 3, outputAnalyser = Some 4, liveVolumeInterval = Some 20\<rparr>"
  by (simp add: liveOpen_def liveDemo_fields onSessionOpen_def startAudioInputStreaming_def
      liveStartVolumeMonitoring_def)

lemma liveActive_fields:
  "liveActive =
     \<lparr>inputAudioContext = Some 1, outputAudioContext = Some 2, inputSource = Some 8,
      processor = Some 9, outputNode = Some 5, audioSources = [10], nextStartTime = 1 / 2,
      stream = Some 6, isConnected = True, sessionPromise = Some 7,
      liveInputAnalyser = Some 3, outputAnalyser = Some 4, liveVolumeInterval = Some 20\<rparr>"
  by (simp add: liveActive_def liveOpen_fields handleServerMessage_def scheduleChunk_def
      flushOnInterrupt_def chunk_def demoDuration_def setAdd_def)

lemma handleServerMessage_interrupted:
  assumes "processes s" "interrupted m"
  shows "handleServerMessage duration t n m s =
     (s\<lparr>nextStartTime := 0, audioSources := []\<rparr>,
      (if isAudioChunk m
       then [NodeConnect n (the (outputNode s)), SourceStart n (max (nextStartTime s) t)]
            @ map SourceStop (setAdd n (audioSources s))
       else map SourceStop (audioSources s)))"
  using assms
  by (auto simp: handleServerMessage_def processes_def isAudioChunk_def scheduleChunk_def
        flushOnInterrupt_def Let_def split: option.splits)

lemma startTimes_stops: "startTimes (map SourceStop xs) = []"
  by (induction xs) auto

lemma handleServerMessage_start:
  assumes "processes s" "isAudioChunk m"
  shows "startTimes (snd (handleServerMessage duration t n m s)) = [max (nextStartTime s) t]"
  using assms
  by (auto simp: handleServerMessage_def processes_def isAudioChunk_def scheduleChunk_def
        flushOnInterrupt_def Let_def startTimes_stops split: option.splits)








text \<open>
  C2. When the handler processes a message whose interrupted flag is set, every source
  that was tracked is stopped (the message's own chunk included), the set of tracked
  sources is empty and the cursor is 0; the next audio chunk then starts at the later
  of 0 and the clock reading of its arrival.
\<close>

theorem C2_interruption_resets:
  assumes "processes s" and "interrupted m"
  shows "audioSources (fst (handleServerMessage duration t n m s)) = []
       \<and> nextStartTime (fst (handleServerMessage duration t n m s)) = 0
       \<and> (\<forall>x \<in> set (audioSources s). SourceStop x \<in> set (snd (handleServerMessage duration t n m s)))
       \<and> (isAudioChunk m \<longrightarrow> SourceStop n \<in> set (snd (handleServerMessage duration t n m s)))
       \<and> (isAudioChunk m' \<longrightarrow>
            startTimes (snd (handleServerMessage duration t' n' m'
                               (fst (handleServerMessage duration t n m s)))) = [max 0 t'])"
proof -
  note h = handleServerMessage_interrupted[OF assms, of duration t n]
  have p': "processes (fst (handleServerMessage duration t n m s))"
    using assms(1) by (simp add: h processes_def)
  have c': "nextStartTime (fst (handleServerMessage duration t n m s)) = 0"
    by (simp add: h)
  have nxt: "isAudioChunk m' \<longrightarrow>
            startTimes (snd (handleServerMessage duration t' n' m'
                               (fst (handleServerMessage duration t n m s)))) = [max 0 t']"
    using handleServerMessage_start[OF p', of m' duration t' n'] c' by simp
  have stops: "\<forall>x \<in> set (audioSources s). SourceStop x \<in> set (snd (handleServerMessage duration t n m s))"
    by (auto simp: h setAdd_def)
  have own: "isAudioChunk m \<longrightarrow> SourceStop n \<in> set (snd (handleServerMessage duration t n m s))"
    by (auto simp: h setAdd_def)
  from stops own nxt show ?thesis by (simp add: h)
qed

theorem C2_interruption_resets_witness:
  "processes liveActive \<and> interrupted interruption \<and> isAudioChunk (chunk ''AAA'')
   \<and> audioSources liveActive = [10] \<and> nextStartTime liveActive = 1 / 2
   \<and> handleServerMessage demoDuration 1 11 interruption liveActive
       = (liveActive\<lparr>nextStartTime := 0, audioSources := []\<rparr>, [SourceStop 10])
   \<and> startTimes (snd (handleServerMessage demoDuration (1 / 4) 12 (chunk ''AAA'')
                        (fst (handleServerMessage demoDuration 1 11 interruption liveActive))))
       = [1 / 4]"
proof -
  have p: "processes liveActive" by (simp add: processes_def liveActive_fields)
  have i: "interrupted interruption" by (simp add: interruption_def)
  have a: "isAudioChunk (chunk ''AAA'')" by (simp add: isAudioChunk_def chunk_def)
  have na: "\<not> isAudioChunk interruption" by (simp add: isAudioChunk_def interruption_def)
  have run: "handleServerMessage demoDuration 1 11 interruption liveActive
       = (liveActive\<lparr>nextStartTime := 0, audioSources := []\<rparr>, [SourceStop 10])"
    by (simp add: handleServerMessage_interrupted[OF p i] na) (simp add: liveActive_fields)
  from C2_interruption_resets[OF p i, of demoDuration 1 11 "chunk ''AAA''" "1 / 4" 12] a
  show ?thesis
    by (simp add: p i run) (simp add: liveActive_fields)
qed

text \<open>
  C10 as it is stated fails for a message that arrives after \<open>disconnect\<close>: the output
  context is gone, the handler returns at its guard, nothing is decoded or stopped, and
  the cursor and the tracked source of the earlier chunk stay as they were.
\<close>

theorem C10_late_message_counterexample:
  "isAudioChunk (interruptedChunk ''AAA'') \<and> interrupted (interruptedChunk ''AAA'')
   \<and> snd (handleServerMessage demoDuration 1 11 (interruptedChunk ''AAA'')
            (fst (disconnect liveActive))) = []
   \<and> nextStartTime (fst (handleServerMessage demoDuration 1 11 (interruptedChunk ''AAA'')
            (fst (disconnect liveActive)))) = 1 / 2
   \<and> audioSources (fst (handleServerMessage demoDuration 1 11 (interruptedChunk ''AAA'')
            (fst (disconnect liveActive)))) = [10]"
  by (simp add: isAudioChunk_def interruptedChunk_def disconnect_def liveActive_fields
      handleServerMessage_def)

text \<open>
  C10, amended. A message with a non-empty audio payload and the interrupted flag,
  handled while the output context and the output node exist: the chunk is connected
  and started, then it and every other tracked source are stopped, the cursor is 0 and
  no source is tracked.
\<close>

theorem C10_interrupted_chunk:
  assumes "processes s" and "isAudioChunk m" and "interrupted m"
  shows "snd (handleServerMessage duration t n m s)
           = [NodeConnect n (the (outputNode s)), SourceStart n (max (nextStartTime s) t)]
             @ map SourceStop (setAdd n (audioSources s))
       \<and> SourceStop n \<in> set (snd (handleServerMessage duration t n m s))
       \<and> (\<forall>x \<in> set (audioSources s).
             SourceStop x \<in> set (snd (handleServerMessage duration t n m s)))
       \<and> nextStartTime (fst (handleServerMessage duration t n m s)) = 0
       \<and> audioSources (fst (handleServerMessage duration t n m s)) = []"
  using assms(2) by (auto simp: handleServerMessage_interrupted[OF assms(1,3)] setAdd_def)

theorem C10_interrupted_chunk_witness:
  "processes liveActive \<and> isAudioChunk (interruptedChunk ''AAA'')
   \<and> interrupted (interruptedChunk ''AAA'')
   \<and> handleServerMessage demoDuration 1 11 (interruptedChunk ''AAA'') liveActive
       = (liveOpen, [NodeConnect 11 5, SourceStart 11 1, SourceStop 10, SourceStop 11])"
proof -
  have p: "processes liveActive" by (simp add: processes_def liveActive_fields)
  have a: "isAudioChunk (interruptedChunk ''AAA'')"
    by (simp add: isAudioChunk_def interruptedChunk_def)
  have i: "interrupted (interruptedChunk ''AAA'')" by (simp add: interruptedChunk_def)
  have st: "fst (handleServerMessage demoDuration 1 11 (interruptedChunk ''AAA'') liveActive) = liveOpen"
    by (simp add: handleServerMessage_interrupted[OF p i]) (simp add: liveActive_fields liveOpen_fields)
  from C10_interrupted_chunk[OF p a i, of demoDuration 1 11]
  have "snd (handleServerMessage demoDuration 1 11 (interruptedChunk ''AAA'') liveActive)
          = [NodeConnect 11 5, SourceStart 11 1, SourceStop 10, SourceStop 11]"
    by (simp add: liveActive_fields setAdd_def)
  with st p a i show ?thesis by (simp add: prod_eq_iff)
qed

section \<open>Teardown and session guards\<close>

lemma released_simps:
  "released None f = []"
  "released (Some h) f = [f h]"
  by (simp_all add: released_def)

lemma clearTimer_simps:
  "clearTimer None = (None, [])"
  "clearTimer (Some h) = (if h = 0 then (Some 0, []) else (None, [ClearInterval h]))"
  by (simp_all add: clearTimer_def truthy_def released_def)

lemma clearTimer_again: "clearTimer (fst (clearTimer slot)) = (fst (clearTimer slot), [])"
  by (cases slot) (simp_all add: clearTimer_simps)


lemma cleanupCall_again: "cleanupCall (fst (cleanupCall p)) = (fst (cleanupCall p), [])"
  by (simp add: cleanupCall_def released_simps clearTimer_again)

lemma endCall_state: "fst (endCall p) = fst (cleanupCall p)"
  by (simp add: endCall_def split: prod.splits)

lemma endCall_again: "endCall (fst (endCall p)) = (fst (endCall p), [])"
  by (simp add: endCall_state) (simp add: endCall_def cleanupCall_def released_simps clearTimer_again)




text \<open>
  C5 as it is stated fails: \<open>disconnect\<close> on a session with a scheduled buffer source
  stops the microphone, disconnects the two input nodes, closes both contexts and
  clears the timer, but it calls \<open>stop\<close> on no buffer source and \<open>disconnect\<close> on no
  output node; the source stays in \<open>audioSources\<close>.
\<close>

theorem C5_stop_counterexample:
  "audioSources liveActive = [10]
   \<and> snd (disconnect liveActive)
       = [StopTracks 6, NodeDisconnect 9, NodeDisconnect 8, ContextClose 1, ContextClose 2,
          ClearInterval 20]
   \<and> SourceStop 10 \<notin> set (snd (disconnect liveActive))
   \<and> audioSources (fst (disconnect liveActive)) = [10]
   \<and> outputNode (fst (disconnect liveActive)) = Some 5
   \<and> NodeDisconnect 5 \<notin> set (snd (disconnect liveActive))"
  by (simp add: disconnect_def released_simps clearTimer_simps liveActive_fields)

text \<open>
  C5, amended. \<open>disconnect\<close> itself clears a set metering timer and empties its slot,
  stops the microphone tracks, disconnects the processor and the input source node and
  closes both audio contexts, emptying each slot; a message handled afterwards is
  dropped at the handler's guard, so nothing is scheduled after the stop. It stops no
  buffer source: the tracked sources and the cursor are left as they were, and what
  was scheduled is silenced by the close of the output context.
\<close>

theorem C5_disconnect_teardown:
  "(\<forall>h. liveVolumeInterval s = Some h \<and> h \<noteq> 0 \<longrightarrow>
        ClearInterval h \<in> set (snd (disconnect s))
        \<and> liveVolumeInterval (fst (disconnect s)) = None)
   \<and> (\<forall>m. stream s = Some m \<longrightarrow> StopTracks m \<in> set (snd (disconnect s)))
   \<and> (\<forall>p. processor s = Some p \<longrightarrow> NodeDisconnect p \<in> set (snd (disconnect s)))
   \<and> (\<forall>i. inputSource s = Some i \<longrightarrow> NodeDisconnect i \<in> set (snd (disconnect s)))
   \<and> (\<forall>c. inputAudioContext s = Some c \<longrightarrow> ContextClose c \<in> set (snd (disconnect s)))
   \<and> (\<forall>c. outputAudioContext s = Some c \<longrightarrow> ContextClose c \<in> set (snd (disconnect s)))
   \<and> stream (fst (disconnect s)) = None
   \<and> processor (fst (disconnect s)) = None
   \<and> inputSource (fst (disconnect s)) = None
   \<and> inputAudioContext (fst (disconnect s)) = None
   \<and> outputAudioContext (fst (disconnect s)) = None
   \<and> \<not> isConnected (fst (disconnect s))
   \<and> (\<forall>x. SourceStop x \<notin> set (snd (disconnect s)))
   \<and> audioSources (fst (disconnect s)) = audioSources s
   \<and> nextStartTime (fst (disconnect s)) = nextStartTime s
   \<and> handleServerMessage duration t n m (fst (disconnect s)) = (fst (disconnect s), [])"
  by (auto simp: disconnect_def released_def clearTimer_def truthy_def handleServerMessage_def
      split: option.splits)

theorem C5_disconnect_teardown_witness:
  "liveVolumeInterval liveActive = Some 20 \<and> stream liveActive = Some 6
   \<and> processor liveActive = Some 9 \<and> inputSource liveActive = Some 8
   \<and> inputAudioContext liveActive = Some 1 \<and> outputAudioContext liveActive = Some 2
   \<and> ClearInterval 20 \<in> set (snd (disconnect liveActive))
   \<and> StopTracks 6 \<in> set (snd (disconnect liveActive))
   \<and> NodeDisconnect 9 \<in> set (snd (disconnect liveActive))
   \<and> NodeDisconnect 8 \<in> set (snd (disconnect liveActive))
   \<and> ContextClose 1 \<in> set (snd (disconnect liveActive))
   \<and> ContextClose 2 \<in> set (snd (disconnect liveActive))
   \<and> liveVolumeInterval (fst (disconnect liveActive)) = None
   \<and> handleServerMessage demoDuration 1 11 (chunk ''AAA'') (fst (disconnect liveActive))
       = (fst (disconnect liveActive), [])"
proof -
  have f: "liveVolumeInterval liveActive = Some 20" "stream liveActive = Some 6"
    "processor liveActive = Some 9" "inputSource liveActive = Some 8"
    "inputAudioContext liveActive = Some 1" "outputAudioContext liveActive = Some 2"
    by (simp_all add: liveActive_fields)
  from C5_disconnect_teardown[of liveActive demoDuration 1 11 "chunk ''AAA''"] f
  show ?thesis by simp
qed








section \<open>The call manager: microphone, answering, listeners\<close>

text \<open>
  The concrete managers are states the operations reach: registration, microphone and
  an incoming call give \<open>peerRinging\<close> in either text of the class; answering, the
  remote stream and the start of metering then give \<open>peerInCall\<close>.
\<close>

lemma peerRinging_reached:
  "fst (onIncomingCall 30 4 ''WXYZ''
         (fst (snd (startLocalStream (Some 2)
           (fst (snd (init (Inl 1) ''ABCD'' 30 newPeerService))))))) = peerRinging"
  by (simp add: init_def startLocalStream_def onIncomingCall_def released_def
      newPeerService_def peerRinging_def)

lemma peerRinging_reached_alt:
  "fst (onIncomingCall 30 4 ''WXYZ''
         (fst (snd (startLocalStream_alt (Inl 2)
           (fst (snd (init_alt (Inl 1) ''ABCD'' 30 newPeerService))))))) = peerRinging"
  by (simp add: init_alt_def startLocalStream_alt_def onIncomingCall_def
      newPeerService_def peerRinging_def)

lemma peerInCall_reached:
  "fst (startVolumeMonitoring 8
         (fst (deliver demoAnalysis Stream 3 [30]
           (fst (snd (answerCall None Returns 30 peerRinging)))))) = peerInCall"
  by (simp add: answerCall_def setupAudioAnalysis_def startVolumeMonitoring_def released_def
      demoAnalysis_def peerRinging_def peerInCall_def)

text \<open>The text of part_000 asks for the microphone only while it holds no stream.\<close>

lemma startLocalStream_memoized:
  "myStream s = Some m \<Longrightarrow> startLocalStream mic s = (Inr m, s, [])"
  by (simp add: startLocalStream_def)

lemma startLocalStream_acquires:
  "myStream s = None \<Longrightarrow>
     startLocalStream (Some m) s = (Inr m, s\<lparr>myStream := Some m\<rparr>, [GetUserMedia])"
  by (simp add: startLocalStream_def)

lemma makeCall_reuses_stream:
  "myStream s = Some m \<Longrightarrow>
     GetUserMedia \<notin> set (snd (snd (makeCall mic placed remoteId callbacks s)))
     \<and> myStream (fst (snd (makeCall mic placed remoteId callbacks s))) = Some m"
  by (auto simp: makeCall_def released_def setupCallEvents_def Let_def split: option.splits)

lemma answerCall_reuses_stream:
  "myStream s = Some m \<Longrightarrow>
     GetUserMedia \<notin> set (snd (snd (answerCall mic answered callbacks s)))
     \<and> myStream (fst (snd (answerCall mic answered callbacks s))) = Some m"
  by (auto simp: answerCall_def setupCallEvents_def split: option.splits outcome.splits)

lemma startLocalStream_alt_requests:
  "snd (snd (startLocalStream_alt mic s)) = [GetUserMedia]"
  by (simp add: startLocalStream_alt_def split: sum.splits)

text \<open>
  C4. The text of the class in src/services/peerService.ts (lines 42-45) has no test of
  \<open>myStream\<close>: two calls of \<open>startLocalStream\<close> on one manager, the microphone granted
  both times, make two requests, and the second stream replaces the first.
\<close>

theorem C4_second_request:
  "startLocalStream_alt (Inl 5) newPeerService
     = (Inr 5, newPeerService\<lparr>myStream := Some 5\<rparr>, [GetUserMedia])
   \<and> startLocalStream_alt (Inl 6) (newPeerService\<lparr>myStream := Some 5\<rparr>)
     = (Inr 6, newPeerService\<lparr>myStream := Some 6\<rparr>, [GetUserMedia])
   \<and> startLocalStream (Some 6) (newPeerService\<lparr>myStream := Some 5\<rparr>)
     = (Inr 5, newPeerService\<lparr>myStream := Some 5\<rparr>, [])"
  by (simp add: startLocalStream_alt_def startLocalStream_def newPeerService_def)

text \<open>
  The text of part_000 goes on after an error of \<open>answer\<close> whose message contains
  \<open>stable\<close> and rethrows every other one.
\<close>

lemma answerCall_stable:
  assumes "call s = Some c" "myStream s = Some m" "isStable message"
  shows "answerCall mic (Throws message) callbacks s
           = (Inr (), s, [CallAnswer c (Some m)] @ setupCallEvents c callbacks)"
  using assms by (simp add: answerCall_def)

lemma answerCall_rethrows:
  assumes "call s = Some c" "myStream s = Some m" "\<not> isStable message"
  shows "answerCall mic (Throws message) callbacks s
           = (Inl (Thrown message), s, [CallAnswer c (Some m)])"
  using assms by (simp add: answerCall_def)

lemma stableError_isStable: "isStable stableError"
  by (simp add: isStable_def stableError_def)

text \<open>
  C7. In the text of src/services/peerService.ts (lines 57-66) \<open>call.answer\<close> stands
  outside any \<open>try\<close>: the error of an already stable connection reaches the caller and
  no handler is attached, where the text of part_000 returns normally with the handlers
  attached.
\<close>

theorem C7_stable_error_propagates:
  "isStable stableError
   \<and> answerCall_alt (Inl 9) (Throws stableError) 30 peerRinging
       = (Inl (Thrown stableError), peerRinging, [CallAnswer 4 (Some 2)])
   \<and> answerCall None (Throws stableError) 30 peerRinging
       = (Inr (), peerRinging, [CallAnswer 4 (Some 2)] @ setupCallEvents 4 30)"
  by (simp add: stableError_isStable answerCall_alt_def answerCall_def peerRinging_def)

text \<open>
  In the text of part_000 a call has, after \<open>setupCallEvents\<close>, exactly the new listener
  on each of its three events, whatever was attached before, and \<open>init\<close> destroys the
  peer it held before it creates the next one.
\<close>

lemma listeners_append: "listeners c ev (es @ es') = foldl (attach c ev) (listeners c ev es) es'"
  by (simp add: listeners_def)

lemma listeners_setupCallEvents:
  "listeners c ev (es @ setupCallEvents c callbacks) = [callbacks]"
  by (cases ev) (simp_all add: listeners_append setupCallEvents_def)

lemma deliver_single_close:
  "snd (deliver env Close arg [callbacks] s) = snd (cleanupCall s) @ [Invoke (OnClose callbacks)]"
  by (simp split: prod.splits)

lemma init_discards_prior:
  "peer s = Some q \<Longrightarrow> \<exists>rest. snd (snd (init created myId callbacks s)) = PeerDestroy q # rest"
  by (simp add: init_def released_def split: sum.splits)

text \<open>
  C6. The text of src/services/peerService.ts attaches listeners and removes none
  (lines 68-87), and its \<open>init\<close> leaves an earlier peer registered (lines 18-40). After
  two \<open>answerCall\<close>s on one incoming call the call's \<open>close\<close> event has two listeners,
  and one remote close runs \<open>onClose\<close> twice; a second \<open>init\<close> destroys nothing. The
  text of part_000 delivers the same close once and destroys the earlier peer.
\<close>

theorem C6_duplicate_delivery:
  "answerCall_alt (Inl 9) Returns 30 peerRinging
     = (Inr (), peerRinging,
        [CallAnswer 4 (Some 2), CallOn 4 Stream 30, CallOn 4 Close 30, CallOn 4 Error 30])
   \<and> listeners 4 Close
        (snd (snd (answerCall_alt (Inl 9) Returns 30 peerRinging))
         @ snd (snd (answerCall_alt (Inl 9) Returns 30 peerRinging))) = [30, 30]
   \<and> snd (snd (deliver_alt demoAnalysis Close 0 [30, 30] peerRinging))
       = [Invoke (OnClose 30), Invoke (OnClose 30)]
   \<and> snd (snd (init_alt (Inl 2) ''WXYZ'' 31 peerRinging))
       = [NewPeer ''WXYZ'' 2, PeerOn 2 PeerOpen 31, PeerOn 2 PeerIncoming 31,
          PeerOn 2 PeerError 31]
   \<and> listeners 4 Close
        (snd (snd (answerCall None Returns 30 peerRinging))
         @ snd (snd (answerCall None Returns 30 peerRinging))) = [30]
   \<and> snd (deliver demoAnalysis Close 0 [30] peerRinging) = [Invoke (OnClose 30)]
   \<and> snd (snd (init (Inl 2) ''WXYZ'' 31 peerRinging))
       = [PeerDestroy 1, NewPeer ''WXYZ'' 2, PeerOn 2 PeerOpen 31, PeerOn 2 PeerIncoming 31,
          PeerOn 2 PeerError 31]"
proof -
  have a: "answerCall_alt (Inl 9) Returns 30 peerRinging
     = (Inr (), peerRinging,
        [CallAnswer 4 (Some 2), CallOn 4 Stream 30, CallOn 4 Close 30, CallOn 4 Error 30])"
    by (simp add: answerCall_alt_def setupCallEvents_alt_def peerRinging_def)
  have b: "answerCall None Returns 30 peerRinging
     = (Inr (), peerRinging, [CallAnswer 4 (Some 2)] @ setupCallEvents 4 30)"
    by (simp add: answerCall_def peerRinging_def)
  have c: "cleanupCall peerRinging = (peerRinging\<lparr>call := None\<rparr>, [])"
    by (simp add: cleanupCall_def released_simps clearTimer_simps peerRinging_def)
  have c': "cleanupCall (peerRinging\<lparr>call := None\<rparr>) = (peerRinging\<lparr>call := None\<rparr>, [])"
    by (simp add: cleanupCall_def released_simps clearTimer_simps peerRinging_def)
  have d: "snd (snd (deliver_alt demoAnalysis Close 0 [30, 30] peerRinging))
       = [Invoke (OnClose 30), Invoke (OnClose 30)]"
    by (simp add: c c')
  have e: "snd (deliver demoAnalysis Close 0 [30] peerRinging) = [Invoke (OnClose 30)]"
    by (simp add: c)
  have f: "snd (snd (init_alt (Inl 2) ''WXYZ'' 31 peerRinging))
       = [NewPeer ''WXYZ'' 2, PeerOn 2 PeerOpen 31, PeerOn 2 PeerIncoming 31,
          PeerOn 2 PeerError 31]"
    by (simp add: init_alt_def)
  have f': "snd (snd (init (Inl 2) ''WXYZ'' 31 peerRinging))
       = [PeerDestroy 1, NewPeer ''WXYZ'' 2, PeerOn 2 PeerOpen 31, PeerOn 2 PeerIncoming 31,
          PeerOn 2 PeerError 31]"
    by (simp add: init_def released_simps peerRinging_def)
  have g: "listeners 4 Close
        ([CallAnswer 4 (Some 2), CallOn 4 Stream 30, CallOn 4 Close 30, CallOn 4 Error 30]
         @ [CallAnswer 4 (Some 2), CallOn 4 Stream 30, CallOn 4 Close 30, CallOn 4 Error 30])
       = [30, 30]"
    by (simp add: listeners_def)
  have h: "listeners 4 Close
        (([CallAnswer 4 (Some 2)] @ setupCallEvents 4 30)
         @ ([CallAnswer 4 (Some 2)] @ setupCallEvents 4 30)) = [30]"
    by (simp add: listeners_def setupCallEvents_def)
  show ?thesis
    using d e f f' g h by (simp add: a b)
qed

end
